theory Spec2Isabelle
  imports Main
begin

section \<open>Model configuration records (mflux/config/model_config.py)\<close>

text \<open>
  The class \<^verbatim>\<open>ModelConfig\<close> only stores the nine constructor arguments. Python's
  \<^verbatim>\<open>str | None\<close> is \<open>string option\<close>, its unbounded \<^verbatim>\<open>int\<close> is \<open>int\<close>.
\<close>

record ModelConfig =
  "alias" :: "string option"
  model_name :: string
  base_model :: "string option"
  controlnet_model :: "string option"
  num_train_steps :: int
  max_sequence_length :: int
  supports_guidance :: bool
  requires_sigma_shift :: bool
  priority :: int

text \<open>
  Modelled from the spec: the exception classes \<^verbatim>\<open>InvalidBaseModel\<close> and
  \<^verbatim>\<open>ModelConfigError\<close> are imported from \<^verbatim>\<open>mflux.error.error\<close>, which is not part
  of the sources at hand; the spec names them as two distinct, catchable error kinds.
  A constructor stands for the class an exception is raised with and carries the
  message of the raise. \<^verbatim>\<open>AttributeError\<close> is what Python raises for
  \<^verbatim>\<open>default_base.alias\<close> when \<^verbatim>\<open>default_base\<close> is \<^verbatim>\<open>None\<close>.
\<close>

datatype error =
    InvalidBaseModel string
  | ModelConfigError string
  | AttributeError

subsection \<open>Python primitives used by the resolver\<close>

text \<open>Truthiness of a \<^verbatim>\<open>str | None\<close> value: \<^verbatim>\<open>None\<close> and \<^verbatim>\<open>""\<close> are falsy.\<close>

fun truthy :: "string option \<Rightarrow> bool" where
  "truthy None = False"
| "truthy (Some s) = (s \<noteq> [])"

text \<open>\<^verbatim>\<open>s.startswith(sub)\<close> and the substring test \<^verbatim>\<open>sub in s\<close>.\<close>

fun starts_with :: "string \<Rightarrow> string \<Rightarrow> bool" where
  "starts_with s [] = True"
| "starts_with [] (c # sub) = False"
| "starts_with (d # s) (c # sub) = (d = c \<and> starts_with s sub)"

fun str_contains :: "string \<Rightarrow> string \<Rightarrow> bool" where
  "str_contains [] sub = (sub = [])"
| "str_contains (d # s) sub = (starts_with (d # s) sub \<or> str_contains s sub)"

text \<open>
  \<^verbatim>\<open>repr\<close> of a string, on ASCII: the quote is \<^verbatim>\<open>'\<close>, unless the string holds
  a \<^verbatim>\<open>'\<close> and no \<^verbatim>\<open>"\<close>; the quote and the backslash are escaped with a
  backslash, tab, newline and carriage return by letter, every other control
  character as \<^verbatim>\<open>\xNN\<close>. Characters from 0x80 on are kept as they are.
\<close>

definition hex_digit :: "nat \<Rightarrow> char" where
  "hex_digit n = ''0123456789abcdef'' ! (n mod 16)"

definition repr_char :: "char \<Rightarrow> char \<Rightarrow> string" where
  "repr_char q c =
     (if c = q \<or> c = CHR 0x5C then [CHR 0x5C, c]
      else if c = CHR 0x09 then [CHR 0x5C, CHR ''t'']
      else if c = CHR 0x0A then [CHR 0x5C, CHR ''n'']
      else if c = CHR 0x0D then [CHR 0x5C, CHR ''r'']
      else if of_char c < (32::nat) \<or> c = CHR 0x7F
        then [CHR 0x5C, CHR ''x'', hex_digit (of_char c div 16), hex_digit (of_char c)]
      else [c])"

definition repr_str :: "string \<Rightarrow> string" where
  "repr_str s =
     (let q = (if CHR 0x27 \<in> set s \<and> CHR 0x22 \<notin> set s then CHR 0x22 else CHR 0x27)
      in [q] @ concat (map (repr_char q) s) @ [q])"

fun repr_opt :: "string option \<Rightarrow> string" where
  "repr_opt None = ''None''"
| "repr_opt (Some s) = repr_str s"

text \<open>\<^verbatim>\<open>", ".join(parts)\<close> and \<^verbatim>\<open>repr\<close> of a list of \<^verbatim>\<open>str | None\<close>.\<close>

fun join_comma :: "string list \<Rightarrow> string" where
  "join_comma [] = []"
| "join_comma [p] = p"
| "join_comma (p # q # ps) = p @ '', '' @ join_comma (q # ps)"

definition repr_list :: "string option list \<Rightarrow> string" where
  "repr_list xs = ''['' @ join_comma (map repr_opt xs) @ '']''"

subsection \<open>The registry\<close>

text \<open>
  \<^verbatim>\<open>AVAILABLE_MODELS\<close> is a dict literal with twelve distinct keys; a dict keeps
  insertion order, so it is the association list of its items in the order
  they are written.
\<close>

definition AVAILABLE_MODELS :: "(string \<times> ModelConfig) list" where
  "AVAILABLE_MODELS =
   [(''schnell'',
     \<lparr>alias = Some ''schnell'', model_name = ''black-forest-labs/FLUX.1-schnell'',
      base_model = None, controlnet_model = None,
      num_train_steps = 1000, max_sequence_length = 256,
      supports_guidance = False, requires_sigma_shift = False, priority = 2\<rparr>),
    (''dev'',
     \<lparr>alias = Some ''dev'', model_name = ''black-forest-labs/FLUX.1-dev'',
      base_model = None, controlnet_model = None,
      num_train_steps = 1000, max_sequence_length = 512,
      supports_guidance = True, requires_sigma_shift = True, priority = 1\<rparr>),
    (''dev-fill'',
     \<lparr>alias = Some ''dev-fill'', model_name = ''black-forest-labs/FLUX.1-Fill-dev'',
      base_model = None, controlnet_model = None,
      num_train_steps = 1000, max_sequence_length = 512,
      supports_guidance = True, requires_sigma_shift = True, priority = 0\<rparr>),
    (''dev-depth'',
     \<lparr>alias = Some ''dev-depth'', model_name = ''black-forest-labs/FLUX.1-Depth-dev'',
      base_model = None, controlnet_model = None,
      num_train_steps = 1000, max_sequence_length = 512,
      supports_guidance = True, requires_sigma_shift = True, priority = 4\<rparr>),
    (''dev-redux'',
     \<lparr>alias = Some ''dev-redux'', model_name = ''black-forest-labs/FLUX.1-Redux-dev'',
      base_model = None, controlnet_model = None,
      num_train_steps = 1000, max_sequence_length = 512,
      supports_guidance = True, requires_sigma_shift = True, priority = 3\<rparr>),
    (''dev-controlnet-canny'',
     \<lparr>alias = Some ''dev-controlnet-canny'', model_name = ''black-forest-labs/FLUX.1-dev'',
      base_model = None, controlnet_model = Some ''InstantX/FLUX.1-dev-Controlnet-Canny'',
      num_train_steps = 1000, max_sequence_length = 512,
      supports_guidance = True, requires_sigma_shift = True, priority = 5\<rparr>),
    (''schnell-controlnet-canny'',
     \<lparr>alias = Some ''schnell-controlnet-canny'',
      model_name = ''black-forest-labs/FLUX.1-schnell'',
      base_model = None, controlnet_model = Some ''InstantX/FLUX.1-dev-Controlnet-Canny'',
      num_train_steps = 1000, max_sequence_length = 256,
      supports_guidance = False, requires_sigma_shift = False, priority = 6\<rparr>),
    (''dev-controlnet-upscaler'',
     \<lparr>alias = Some ''dev-controlnet-upscaler'', model_name = ''black-forest-labs/FLUX.1-dev'',
      base_model = None, controlnet_model = Some ''jasperai/Flux.1-dev-Controlnet-Upscaler'',
      num_train_steps = 1000, max_sequence_length = 512,
      supports_guidance = False, requires_sigma_shift = False, priority = 7\<rparr>),
    (''xulf-s'',
     \<lparr>alias = Some ''xulf-s'', model_name = ''cocktailpeanut/xulf-s'',
      base_model = None, controlnet_model = None,
      num_train_steps = 1000, max_sequence_length = 256,
      supports_guidance = False, requires_sigma_shift = False, priority = 9\<rparr>),
    (''xulf-d'',
     \<lparr>alias = Some ''f-lite'', model_name = ''cocktailpeanut/xulf-d'',
      base_model = None, controlnet_model = None,
      num_train_steps = 1000, max_sequence_length = 512,
      supports_guidance = True, requires_sigma_shift = True, priority = 8\<rparr>),
    (''f-lite'',
     \<lparr>alias = Some ''f-lite'', model_name = ''Freepik/flux.1-lite-8B'',
      base_model = None, controlnet_model = None,
      num_train_steps = 1000, max_sequence_length = 512,
      supports_guidance = True, requires_sigma_shift = True, priority = 10\<rparr>),
    (''shuttle-3'',
     \<lparr>alias = Some ''shuttle-3'', model_name = ''shuttleai/shuttle-3-diffusion'',
      base_model = None, controlnet_model = None,
      num_train_steps = 1000, max_sequence_length = 256,
      supports_guidance = False, requires_sigma_shift = False, priority = 11\<rparr>)]"

text \<open>\<^verbatim>\<open>AVAILABLE_MODELS[key]\<close>: a missing key raises \<^verbatim>\<open>KeyError\<close>, here \<open>None\<close>.\<close>

definition lookup :: "string \<Rightarrow> ModelConfig option" where
  "lookup key = map_of AVAILABLE_MODELS key"

subsection \<open>Queries on a record\<close>

definition x_embedder_input_dim :: "ModelConfig \<Rightarrow> int" where
  "x_embedder_input_dim self =
     (if alias self = Some ''dev-fill'' then 384
      else if alias self = Some ''dev-depth'' then 128
      else 64)"

definition is_canny :: "ModelConfig \<Rightarrow> bool" where
  "is_canny self =
     (alias self = Some ''dev-controlnet-canny'' \<or> alias self = Some ''schnell-controlnet-canny'')"

subsection \<open>The resolver \<^verbatim>\<open>ModelConfig.from_name\<close>\<close>

text \<open>
  Step 0: the records with \<^verbatim>\<open>base_model is None\<close>, sorted by priority. Python's
  \<^verbatim>\<open>sorted\<close> is stable, and so is \<open>sort_key\<close>.
\<close>

definition base_models :: "ModelConfig list" where
  "base_models =
     sort_key priority (filter (\<lambda>model. base_model model = None) (map snd AVAILABLE_MODELS))"

text \<open>Step 1, the test \<^verbatim>\<open>model_name in (base.alias, base.model_name)\<close>.\<close>

definition name_matches :: "string \<Rightarrow> ModelConfig \<Rightarrow> bool" where
  "name_matches name base = (alias base = Some name \<or> model_name base = name)"

text \<open>Step 2, the list \<^verbatim>\<open>allowed_names\<close> built by the second loop.\<close>

definition allowed_names :: "string option list" where
  "allowed_names = concat (map (\<lambda>base. [alias base, Some (model_name base)]) base_models)"

text \<open>Step 3, the test \<^verbatim>\<open>b.alias and b.alias in model_name\<close> of the inference.\<close>

definition alias_in_name :: "string \<Rightarrow> ModelConfig \<Rightarrow> bool" where
  "alias_in_name name b =
     (case alias b of None \<Rightarrow> False | Some a \<Rightarrow> a \<noteq> [] \<and> str_contains name a)"

text \<open>Step 4, the record built from the selected base.\<close>

definition construct :: "string \<Rightarrow> ModelConfig \<Rightarrow> ModelConfig" where
  "construct name default_base =
     \<lparr>alias = alias default_base,
      model_name = name,
      base_model = Some (model_name default_base),
      controlnet_model = controlnet_model default_base,
      num_train_steps = num_train_steps default_base,
      max_sequence_length = max_sequence_length default_base,
      supports_guidance = supports_guidance default_base,
      requires_sigma_shift = requires_sigma_shift default_base,
      priority = priority default_base\<rparr>"

text \<open>
  The whole function. The second argument is the parameter \<^verbatim>\<open>base_model\<close>,
  \<open>None\<close> by default. The loops that return at the first hit and the
  \<^verbatim>\<open>next(..., None)\<close> calls are \<open>find\<close>.
\<close>

definition from_name :: "string \<Rightarrow> string option \<Rightarrow> error + ModelConfig" where
  "from_name name hint =
     (case find (name_matches name) base_models of
        Some base \<Rightarrow> Inr base
      | None \<Rightarrow>
          if truthy hint \<and> hint \<notin> set allowed_names
          then Inl (InvalidBaseModel
                 (''Invalid base_model. Choose one of '' @ repr_list allowed_names))
          else if truthy hint
          then (case find (name_matches (the hint)) base_models of
                  None \<Rightarrow> Inl AttributeError
                | Some default_base \<Rightarrow> Inr (construct name default_base))
          else (case find (alias_in_name name) base_models of
                  None \<Rightarrow> Inl (ModelConfigError (''Cannot infer base_model from '' @ name))
                | Some default_base \<Rightarrow> Inr (construct name default_base)))"

section \<open>Facts about the primitives and the registry\<close>

lemma starts_with_iff: "starts_with s sub \<longleftrightarrow> (\<exists>q. s = sub @ q)"
  by (induction s sub rule: starts_with.induct) auto

lemma str_contains_iff: "str_contains s sub \<longleftrightarrow> (\<exists>p q. s = p @ sub @ q)"
proof (induction s)
  case Nil
  then show ?case by simp
next
  case (Cons d s)
  show ?case
  proof
    assume "str_contains (d # s) sub"
    then consider "starts_with (d # s) sub" | "str_contains s sub" by auto
    then show "\<exists>p q. d # s = p @ sub @ q"
    proof cases
      case 1
      then obtain q where "d # s = sub @ q" by (auto simp: starts_with_iff)
      then have "d # s = [] @ sub @ q" by simp
      then show ?thesis by blast
    next
      case 2
      then obtain p q where "s = p @ sub @ q" using Cons.IH by blast
      then have "d # s = (d # p) @ sub @ q" by simp
      then show ?thesis by blast
    qed
  next
    assume "\<exists>p q. d # s = p @ sub @ q"
    then obtain p q where pq: "d # s = p @ sub @ q" by blast
    show "str_contains (d # s) sub"
    proof (cases p)
      case Nil
      with pq have "starts_with (d # s) sub" by (auto simp: starts_with_iff)
      then show ?thesis by simp
    next
      case (Cons e p')
      with pq have "s = p' @ sub @ q" by simp
      then have "str_contains s sub" using Cons.IH by blast
      then show ?thesis by simp
    qed
  qed
qed

lemma base_models_eq:
  "base_models =
   [\<lparr>alias = Some ''dev-fill'', model_name = ''black-forest-labs/FLUX.1-Fill-dev'',
      base_model = None, controlnet_model = None,
      num_train_steps = 1000, max_sequence_length = 512,
      supports_guidance = True, requires_sigma_shift = True, priority = 0\<rparr>,
    \<lparr>alias = Some ''dev'', model_name = ''black-forest-labs/FLUX.1-dev'',
      base_model = None, controlnet_model = None,
      num_train_steps = 1000, max_sequence_length = 512,
      supports_guidance = True, requires_sigma_shift = True, priority = 1\<rparr>,
    \<lparr>alias = Some ''schnell'', model_name = ''black-forest-labs/FLUX.1-schnell'',
      base_model = None, controlnet_model = None,
      num_train_steps = 1000, max_sequence_length = 256,
      supports_guidance = False, requires_sigma_shift = False, priority = 2\<rparr>,
    \<lparr>alias = Some ''dev-redux'', model_name = ''black-forest-labs/FLUX.1-Redux-dev'',
      base_model = None, controlnet_model = None,
      num_train_steps = 1000, max_sequence_length = 512,
      supports_guidance = True, requires_sigma_shift = True, priority = 3\<rparr>,
    \<lparr>alias = Some ''dev-depth'', model_name = ''black-forest-labs/FLUX.1-Depth-dev'',
      base_model = None, controlnet_model = None,
      num_train_steps = 1000, max_sequence_length = 512,
      supports_guidance = True, requires_sigma_shift = True, priority = 4\<rparr>,
    \<lparr>alias = Some ''dev-controlnet-canny'', model_name = ''black-forest-labs/FLUX.1-dev'',
      base_model = None, controlnet_model = Some ''InstantX/FLUX.1-dev-Controlnet-Canny'',
      num_train_steps = 1000, max_sequence_length = 512,
      supports_guidance = True, requires_sigma_shift = True, priority = 5\<rparr>,
    \<lparr>alias = Some ''schnell-controlnet-canny'',
      model_name = ''black-forest-labs/FLUX.1-schnell'',
      base_model = None, controlnet_model = Some ''InstantX/FLUX.1-dev-Controlnet-Canny'',
      num_train_steps = 1000, max_sequence_length = 256,
      supports_guidance = False, requires_sigma_shift = False, priority = 6\<rparr>,
    \<lparr>alias = Some ''dev-controlnet-upscaler'', model_name = ''black-forest-labs/FLUX.1-dev'',
      base_model = None, controlnet_model = Some ''jasperai/Flux.1-dev-Controlnet-Upscaler'',
      num_train_steps = 1000, max_sequence_length = 512,
      supports_guidance = False, requires_sigma_shift = False, priority = 7\<rparr>,
    \<lparr>alias = Some ''f-lite'', model_name = ''cocktailpeanut/xulf-d'',
      base_model = None, controlnet_model = None,
      num_train_steps = 1000, max_sequence_length = 512,
      supports_guidance = True, requires_sigma_shift = True, priority = 8\<rparr>,
    \<lparr>alias = Some ''xulf-s'', model_name = ''cocktailpeanut/xulf-s'',
      base_model = None, controlnet_model = None,
      num_train_steps = 1000, max_sequence_length = 256,
      supports_guidance = False, requires_sigma_shift = False, priority = 9\<rparr>,
    \<lparr>alias = Some ''f-lite'', model_name = ''Freepik/flux.1-lite-8B'',
      base_model = None, controlnet_model = None,
      num_train_steps = 1000, max_sequence_length = 512,
      supports_guidance = True, requires_sigma_shift = True, priority = 10\<rparr>,
    \<lparr>alias = Some ''shuttle-3'', model_name = ''shuttleai/shuttle-3-diffusion'',
      base_model = None, controlnet_model = None,
      num_train_steps = 1000, max_sequence_length = 256,
      supports_guidance = False, requires_sigma_shift = False, priority = 11\<rparr>]"
  by (simp add: base_models_def AVAILABLE_MODELS_def)

lemma sorted_base_models: "sorted (map priority base_models)"
  by (simp add: base_models_def)

lemma base_models_stable:
  "filter (\<lambda>b. priority b = k) base_models =
   filter (\<lambda>b. priority b = k) (filter (\<lambda>m. base_model m = None) (map snd AVAILABLE_MODELS))"
  unfolding base_models_def by (rule sort_key_stable)

lemma set_base_models:
  "set base_models = {m \<in> snd ` set AVAILABLE_MODELS. base_model m = None}"
  unfolding base_models_def by auto

lemma allowed_names_iff:
  "Some h \<in> set allowed_names \<longleftrightarrow> (\<exists>b \<in> set base_models. name_matches h b)"
  by (simp add: allowed_names_def name_matches_def) metis

lemma from_name_exact:
  "find (name_matches name) base_models = Some base \<Longrightarrow> from_name name hint = Inr base"
  by (simp add: from_name_def)

lemma from_name_invalid:
  "find (name_matches name) base_models = None \<Longrightarrow> truthy hint \<Longrightarrow> hint \<notin> set allowed_names \<Longrightarrow>
   from_name name hint =
     Inl (InvalidBaseModel (''Invalid base_model. Choose one of '' @ repr_list allowed_names))"
  by (simp add: from_name_def)

lemma from_name_hint:
  assumes "find (name_matches name) base_models = None" "h \<noteq> []" "Some h \<in> set allowed_names"
  shows "\<exists>b. find (name_matches h) base_models = Some b \<and>
             from_name name (Some h) = Inr (construct name b)"
proof -
  from assms(3) have "find (name_matches h) base_models \<noteq> None"
    by (auto simp: allowed_names_iff find_None_iff)
  then obtain b where "find (name_matches h) base_models = Some b" by blast
  with assms show ?thesis by (simp add: from_name_def)
qed

lemma from_name_infer:
  "find (name_matches name) base_models = None \<Longrightarrow> \<not> truthy hint \<Longrightarrow>
   from_name name hint =
     (case find (alias_in_name name) base_models of
        None \<Rightarrow> Inl (ModelConfigError (''Cannot infer base_model from '' @ name))
      | Some b \<Rightarrow> Inr (construct name b))"
  by (simp add: from_name_def)

lemma alias_in_name_iff:
  "alias_in_name name b \<longleftrightarrow>
     (\<exists>a p q. alias b = Some a \<and> a \<noteq> [] \<and> name = p @ a @ q)"
  by (auto simp: alias_in_name_def str_contains_iff split: option.splits)

lemma find_first:
  "find P xs = Some x \<Longrightarrow>
     \<exists>i < length xs. xs ! i = x \<and> P x \<and> (\<forall>j < i. \<not> P (xs ! j))"
  by (auto simp: find_Some_iff)

lemma find_least_priority:
  assumes "find P base_models = Some b" "c \<in> set base_models" "P c"
  shows "priority b \<le> priority c"
proof -
  from assms(1) obtain i where i: "i < length base_models" "base_models ! i = b"
    "\<forall>j < i. \<not> P (base_models ! j)"
    by (auto simp: find_Some_iff)
  from assms(2) obtain k where k: "k < length base_models" "base_models ! k = c"
    by (auto simp: in_set_conv_nth)
  with assms(3) i(3) have "i \<le> k" by (meson not_le)
  with sorted_base_models i k show ?thesis
    by (metis length_map nth_map sorted_iff_nth_mono)
qed

lemma no_match_custom: "\<forall>base \<in> set base_models. \<not> name_matches ''custom'' base"
  by (simp add: base_models_eq name_matches_def)

lemma no_match_my_dev_fill_lora:
  "\<forall>base \<in> set base_models. \<not> name_matches ''my-dev-fill-lora'' base"
  by (simp add: base_models_eq name_matches_def)

lemma no_alias_in_unrecognizable_name:
  "\<forall>b \<in> set base_models. \<forall>a. alias b = Some a \<longrightarrow>
     \<not> (\<exists>p q. ''unrecognizable-name'' = p @ a @ q)"
  unfolding str_contains_iff [symmetric] by (simp add: base_models_eq)

lemma no_match_unrecognizable_name:
  "\<forall>base \<in> set base_models. \<not> name_matches ''unrecognizable-name'' base"
  by (simp add: base_models_eq name_matches_def)

section \<open>The resolver's claims\<close>

text \<open>
  Claim C2. When \<^verbatim>\<open>from_name(model_name, hint)\<close> finds no exact match and a base is
  selected, either through a hint that passed the validation or through the substring
  inference, the call returns a record whose \<^verbatim>\<open>model_name\<close> is the requested name, whose
  \<^verbatim>\<open>base_model\<close> is the selected base's \<^verbatim>\<open>model_name\<close>, and whose seven other fields
  are the selected base's.
\<close>

theorem from_name_synthesis:
  assumes "\<forall>base \<in> set base_models. \<not> name_matches name base"
    and "(truthy hint \<and> hint \<in> set allowed_names \<and>
            find (name_matches (the hint)) base_models = Some b)
         \<or> (\<not> truthy hint \<and> find (alias_in_name name) base_models = Some b)"
  shows "\<exists>r. from_name name hint = Inr r
           \<and> model_name r = name
           \<and> base_model r = Some (model_name b)
           \<and> alias r = alias b
           \<and> controlnet_model r = controlnet_model b
           \<and> num_train_steps r = num_train_steps b
           \<and> max_sequence_length r = max_sequence_length b
           \<and> supports_guidance r = supports_guidance b
           \<and> requires_sigma_shift r = requires_sigma_shift b
           \<and> priority r = priority b"
proof -
  from assms(1) have none: "find (name_matches name) base_models = None"
    by (simp add: find_None_iff)
  from assms(2) have "from_name name hint = Inr (construct name b)"
  proof
    assume "truthy hint \<and> hint \<in> set allowed_names \<and>
            find (name_matches (the hint)) base_models = Some b"
    with none show ?thesis by (simp add: from_name_def)
  next
    assume "\<not> truthy hint \<and> find (alias_in_name name) base_models = Some b"
    with none show ?thesis by (simp add: from_name_def)
  qed
  then show ?thesis by (simp add: construct_def)
qed

theorem from_name_synthesis_witness:
  "\<exists>r. from_name ''custom'' (Some ''dev'') = Inr r
           \<and> model_name r = ''custom''
           \<and> base_model r = Some ''black-forest-labs/FLUX.1-dev''
           \<and> alias r = Some ''dev''
           \<and> controlnet_model r = None
           \<and> num_train_steps r = 1000
           \<and> max_sequence_length r = 512
           \<and> supports_guidance r = True
           \<and> requires_sigma_shift r = True
           \<and> priority r = 1"
proof -
  let ?dev = "\<lparr>alias = Some ''dev'', model_name = ''black-forest-labs/FLUX.1-dev'',
      base_model = None, controlnet_model = None,
      num_train_steps = 1000, max_sequence_length = 512,
      supports_guidance = True, requires_sigma_shift = True, priority = 1\<rparr>"
  have "truthy (Some ''dev'') \<and> Some ''dev'' \<in> set allowed_names \<and>
        find (name_matches (the (Some ''dev''))) base_models = Some ?dev"
    by (simp add: allowed_names_def base_models_eq name_matches_def)
  then show ?thesis
    using from_name_synthesis [OF no_match_custom, of "Some ''dev''" ?dev] by simp
qed

text \<open>
  Claim C3. With no hint and no exact match, the base selected is the first one, in the
  scan of all records with \<^verbatim>\<open>base_model = None\<close> in ascending priority order (equal
  priorities in declaration order), whose alias is a non-empty substring of the
  requested name. In particular a base whose alias is a substring of the name is never
  selected before one of lower priority whose alias is a substring too.
\<close>

theorem from_name_inference_priority_order:
  assumes "\<forall>base \<in> set base_models. \<not> name_matches name base"
  shows "from_name name None =
           (case find (alias_in_name name) base_models of
              None \<Rightarrow> Inl (ModelConfigError (''Cannot infer base_model from '' @ name))
            | Some b \<Rightarrow> Inr (construct name b))
       \<and> (\<forall>b. alias_in_name name b \<longleftrightarrow>
               (\<exists>a p q. alias b = Some a \<and> a \<noteq> [] \<and> name = p @ a @ q))
       \<and> set base_models = {m \<in> snd ` set AVAILABLE_MODELS. base_model m = None}
       \<and> sorted (map priority base_models)
       \<and> (\<forall>k. filter (\<lambda>b. priority b = k) base_models =
               filter (\<lambda>b. priority b = k)
                 (filter (\<lambda>m. base_model m = None) (map snd AVAILABLE_MODELS)))
       \<and> (\<forall>b. find (alias_in_name name) base_models = Some b \<longrightarrow>
               (\<exists>i < length base_models. base_models ! i = b \<and> alias_in_name name b \<and>
                  (\<forall>j < i. \<not> alias_in_name name (base_models ! j))))
       \<and> (\<forall>c \<in> set base_models. alias_in_name name c \<longrightarrow>
               (\<exists>b. find (alias_in_name name) base_models = Some b \<and>
                    from_name name None = Inr (construct name b) \<and>
                    alias_in_name name b \<and> priority b \<le> priority c))"
proof -
  from assms have none: "find (name_matches name) base_models = None"
    by (simp add: find_None_iff)
  have sel: "from_name name None =
           (case find (alias_in_name name) base_models of
              None \<Rightarrow> Inl (ModelConfigError (''Cannot infer base_model from '' @ name))
            | Some b \<Rightarrow> Inr (construct name b))"
    using none by (simp add: from_name_infer)
  have least: "\<exists>b. find (alias_in_name name) base_models = Some b \<and>
                    from_name name None = Inr (construct name b) \<and>
                    alias_in_name name b \<and> priority b \<le> priority c"
    if c: "c \<in> set base_models" "alias_in_name name c" for c
  proof -
    from c have "find (alias_in_name name) base_models \<noteq> None"
      by (auto simp: find_None_iff)
    then obtain b where b: "find (alias_in_name name) base_models = Some b" by blast
    then have "alias_in_name name b" by (auto simp: find_Some_iff)
    moreover have "priority b \<le> priority c" using b c by (rule find_least_priority)
    moreover have "from_name name None = Inr (construct name b)" using sel b by simp
    ultimately show ?thesis using b by blast
  qed
  show ?thesis
    using sel alias_in_name_iff set_base_models sorted_base_models base_models_stable
      find_first [of "alias_in_name name" base_models] least
    by blast
qed

theorem from_name_inference_priority_order_witness:
  "from_name ''my-dev-fill-lora'' None =
     Inr \<lparr>alias = Some ''dev-fill'', model_name = ''my-dev-fill-lora'',
          base_model = Some ''black-forest-labs/FLUX.1-Fill-dev'', controlnet_model = None,
          num_train_steps = 1000, max_sequence_length = 512,
          supports_guidance = True, requires_sigma_shift = True, priority = 0\<rparr>
   \<and> alias_in_name ''my-dev-fill-lora''
        \<lparr>alias = Some ''dev'', model_name = ''black-forest-labs/FLUX.1-dev'',
         base_model = None, controlnet_model = None,
         num_train_steps = 1000, max_sequence_length = 512,
         supports_guidance = True, requires_sigma_shift = True, priority = 1\<rparr>"
proof -
  have "find (alias_in_name ''my-dev-fill-lora'') base_models =
        Some \<lparr>alias = Some ''dev-fill'', model_name = ''black-forest-labs/FLUX.1-Fill-dev'',
          base_model = None, controlnet_model = None,
          num_train_steps = 1000, max_sequence_length = 512,
          supports_guidance = True, requires_sigma_shift = True, priority = 0\<rparr>"
    by (simp add: base_models_eq alias_in_name_def)
  then show ?thesis
    using from_name_inference_priority_order [OF no_match_my_dev_fill_lora]
    by (simp add: construct_def alias_in_name_def)
qed

text \<open>
  Claim C5. When the requested name is no exact match, no hint is given and no base
  alias is a substring of the name, \<^verbatim>\<open>from_name\<close> raises \<^verbatim>\<open>ModelConfigError\<close> with a
  message that reports the name; the error is not an \<^verbatim>\<open>InvalidBaseModel\<close>.
\<close>

theorem from_name_cannot_infer:
  assumes "\<forall>base \<in> set base_models. \<not> name_matches name base"
    and "\<forall>b \<in> set base_models. \<forall>a. alias b = Some a \<longrightarrow> \<not> (\<exists>p q. name = p @ a @ q)"
  shows "from_name name None =
           Inl (ModelConfigError (''Cannot infer base_model from '' @ name))
       \<and> (\<forall>msg. from_name name None \<noteq> Inl (InvalidBaseModel msg))"
proof -
  from assms(1) have none: "find (name_matches name) base_models = None"
    by (simp add: find_None_iff)
  from assms(2) have "\<forall>b \<in> set base_models. \<not> alias_in_name name b"
    by (auto simp: alias_in_name_iff)
  then have "find (alias_in_name name) base_models = None"
    by (simp add: find_None_iff)
  with none show ?thesis by (simp add: from_name_infer)
qed

theorem from_name_cannot_infer_witness:
  "from_name ''unrecognizable-name'' None =
     Inl (ModelConfigError ''Cannot infer base_model from unrecognizable-name'')
   \<and> (\<forall>msg. from_name ''unrecognizable-name'' None \<noteq> Inl (InvalidBaseModel msg))"
  using from_name_cannot_infer [OF no_match_unrecognizable_name no_alias_in_unrecognizable_name]
  by simp

text \<open>
  Claim C7. With a hint that passed the validation and a name that is no exact match,
  the selected base is the first base in ascending priority order whose alias or
  \<^verbatim>\<open>model_name\<close> equals the hint; the requested name only becomes the
  \<^verbatim>\<open>model_name\<close> of the result, its substrings play no role.
\<close>

theorem from_name_hint_selects_exactly:
  assumes "\<forall>base \<in> set base_models. \<not> name_matches name base"
    and "h \<noteq> []"
    and "Some h \<in> set allowed_names"
  shows "\<exists>b i. from_name name (Some h) = Inr (construct name b)
           \<and> find (name_matches h) base_models = Some b
           \<and> i < length base_models \<and> base_models ! i = b
           \<and> (alias b = Some h \<or> model_name b = h)
           \<and> (\<forall>j < i. alias (base_models ! j) \<noteq> Some h \<and> model_name (base_models ! j) \<noteq> h)
           \<and> (\<forall>c \<in> set base_models. alias c = Some h \<or> model_name c = h \<longrightarrow>
                  priority b \<le> priority c)"
proof -
  from assms(1) have none: "find (name_matches name) base_models = None"
    by (simp add: find_None_iff)
  from from_name_hint [OF none assms(2,3)] obtain b
    where b: "find (name_matches h) base_models = Some b"
      and r: "from_name name (Some h) = Inr (construct name b)"
    by blast
  from find_first [OF b] obtain i
    where i: "i < length base_models" "base_models ! i = b" "name_matches h b"
      "\<forall>j < i. \<not> name_matches h (base_models ! j)"
    by blast
  have "\<forall>c \<in> set base_models. name_matches h c \<longrightarrow> priority b \<le> priority c"
    using find_least_priority [OF b] by blast
  with b r i show ?thesis
    unfolding name_matches_def by blast
qed

theorem from_name_hint_selects_exactly_witness:
  "\<exists>b i. from_name ''my-dev-fill-lora'' (Some ''dev'') = Inr (construct ''my-dev-fill-lora'' b)
           \<and> find (name_matches ''dev'') base_models = Some b
           \<and> i < length base_models \<and> base_models ! i = b
           \<and> (alias b = Some ''dev'' \<or> model_name b = ''dev'')
           \<and> (\<forall>j < i. alias (base_models ! j) \<noteq> Some ''dev'' \<and>
                  model_name (base_models ! j) \<noteq> ''dev'')
           \<and> (\<forall>c \<in> set base_models. alias c = Some ''dev'' \<or> model_name c = ''dev'' \<longrightarrow>
                  priority b \<le> priority c)"
proof -
  have 1: "\<forall>base \<in> set base_models. \<not> name_matches ''my-dev-fill-lora'' base"
    by (simp add: base_models_eq name_matches_def)
  have 2: "''dev'' \<noteq> []" by simp
  have 3: "Some ''dev'' \<in> set allowed_names"
    by (simp add: allowed_names_def base_models_eq)
  show ?thesis by (rule from_name_hint_selects_exactly [OF 1 2 3])
qed

text \<open>
  Claim C8. For every record, \<^verbatim>\<open>x_embedder_input_dim\<close> is 384 when the alias is
  \<^verbatim>\<open>dev-fill\<close>, 128 when it is \<^verbatim>\<open>dev-depth\<close>, and 64 for every other alias,
  \<^verbatim>\<open>None\<close> included.
\<close>

theorem x_embedder_input_dim_table:
  "(alias c = Some ''dev-fill'' \<longrightarrow> x_embedder_input_dim c = 384)
 \<and> (alias c = Some ''dev-depth'' \<longrightarrow> x_embedder_input_dim c = 128)
 \<and> (alias c \<noteq> Some ''dev-fill'' \<and> alias c \<noteq> Some ''dev-depth'' \<longrightarrow> x_embedder_input_dim c = 64)"
  by (simp add: x_embedder_input_dim_def)

theorem x_embedder_input_dim_table_witness:
  "x_embedder_input_dim
     \<lparr>alias = Some ''dev-fill'', model_name = ''black-forest-labs/FLUX.1-Fill-dev'',
      base_model = None, controlnet_model = None,
      num_train_steps = 1000, max_sequence_length = 512,
      supports_guidance = True, requires_sigma_shift = True, priority = 0\<rparr> = 384
 \<and> x_embedder_input_dim
     \<lparr>alias = Some ''dev-depth'', model_name = ''my-depth-lora'',
      base_model = Some ''black-forest-labs/FLUX.1-Depth-dev'', controlnet_model = None,
      num_train_steps = 1000, max_sequence_length = 512,
      supports_guidance = True, requires_sigma_shift = True, priority = 4\<rparr> = 128
 \<and> x_embedder_input_dim
     \<lparr>alias = None, model_name = ''anything'',
      base_model = None, controlnet_model = None,
      num_train_steps = 1, max_sequence_length = 1,
      supports_guidance = False, requires_sigma_shift = False, priority = 0\<rparr> = 64"
  using x_embedder_input_dim_table
    [of "\<lparr>alias = Some ''dev-fill'', model_name = ''black-forest-labs/FLUX.1-Fill-dev'',
      base_model = None, controlnet_model = None,
      num_train_steps = 1000, max_sequence_length = 512,
      supports_guidance = True, requires_sigma_shift = True, priority = 0\<rparr>"]
    x_embedder_input_dim_table
    [of "\<lparr>alias = Some ''dev-depth'', model_name = ''my-depth-lora'',
      base_model = Some ''black-forest-labs/FLUX.1-Depth-dev'', controlnet_model = None,
      num_train_steps = 1000, max_sequence_length = 512,
      supports_guidance = True, requires_sigma_shift = True, priority = 4\<rparr>"]
    x_embedder_input_dim_table
    [of "\<lparr>alias = None, model_name = ''anything'',
      base_model = None, controlnet_model = None,
      num_train_steps = 1, max_sequence_length = 1,
      supports_guidance = False, requires_sigma_shift = False, priority = 0\<rparr>"]
  by simp

text \<open>
  Claim C10. An empty string as hint behaves as no hint: the call is never rejected with
  \<^verbatim>\<open>InvalidBaseModel\<close>, the base is inferred from the substrings of the name, and
  \<^verbatim>\<open>ModelConfigError\<close> is raised when no base alias is a substring of it.
\<close>

theorem from_name_empty_hint:
  "from_name name (Some []) = from_name name None
 \<and> (\<forall>msg. from_name name (Some []) \<noteq> Inl (InvalidBaseModel msg))
 \<and> ((\<forall>base \<in> set base_models. \<not> name_matches name base) \<and>
     (\<forall>b \<in> set base_models. \<forall>a. alias b = Some a \<longrightarrow> \<not> (\<exists>p q. name = p @ a @ q)) \<longrightarrow>
     from_name name (Some []) =
       Inl (ModelConfigError (''Cannot infer base_model from '' @ name)))
 \<and> ((\<forall>base \<in> set base_models. \<not> name_matches name base) \<longrightarrow>
     (\<forall>b. find (alias_in_name name) base_models = Some b \<longrightarrow>
        from_name name (Some []) = Inr (construct name b)))"
proof -
  have eq: "from_name name (Some []) = from_name name None"
    by (simp add: from_name_def)
  have noinv: "from_name name None \<noteq> Inl (InvalidBaseModel msg)" for msg
    by (simp add: from_name_def split: option.splits)
  have err: "from_name name None =
       Inl (ModelConfigError (''Cannot infer base_model from '' @ name))"
    if "\<forall>base \<in> set base_models. \<not> name_matches name base"
      "\<forall>b \<in> set base_models. \<forall>a. alias b = Some a \<longrightarrow> \<not> (\<exists>p q. name = p @ a @ q)"
  proof -
    from that(1) have none: "find (name_matches name) base_models = None"
      by (simp add: find_None_iff)
    from that(2) have "\<forall>b \<in> set base_models. \<not> alias_in_name name b"
      by (auto simp: alias_in_name_iff)
    then have "find (alias_in_name name) base_models = None"
      by (simp add: find_None_iff)
    with none show ?thesis by (simp add: from_name_infer)
  qed
  have sel: "from_name name None = Inr (construct name b)"
    if "\<forall>base \<in> set base_models. \<not> name_matches name base"
      "find (alias_in_name name) base_models = Some b" for b
  proof -
    from that(1) have none: "find (name_matches name) base_models = None"
      by (simp add: find_None_iff)
    with that(2) show ?thesis by (simp add: from_name_infer)
  qed
  show ?thesis using eq noinv err sel by simp
qed

theorem from_name_empty_hint_witness:
  "from_name ''unrecognizable-name'' (Some []) =
     Inl (ModelConfigError ''Cannot infer base_model from unrecognizable-name'')
 \<and> from_name ''unrecognizable-name'' None =
     Inl (ModelConfigError ''Cannot infer base_model from unrecognizable-name'')"
proof -
  note t = from_name_empty_hint [of "''unrecognizable-name''"]
  from t have eq: "from_name ''unrecognizable-name'' (Some []) =
      from_name ''unrecognizable-name'' None"
    by (rule conjunct1)
  from t no_match_unrecognizable_name no_alias_in_unrecognizable_name
  have "from_name ''unrecognizable-name'' (Some []) =
      Inl (ModelConfigError (''Cannot infer base_model from '' @ ''unrecognizable-name''))"
    by blast
  with eq show ?thesis by simp
qed

text \<open>
  Claim C1, as stated, fails: the entry \<^verbatim>\<open>dev-controlnet-canny\<close> is a record with
  \<^verbatim>\<open>base_model = None\<close>, and \<^verbatim>\<open>from_name\<close> of its \<^verbatim>\<open>model_name\<close> returns the
  \<^verbatim>\<open>dev\<close> record, which precedes it in priority order and has the same
  \<^verbatim>\<open>model_name\<close>.
\<close>

theorem from_name_shared_model_name_counterexample:
  "lookup ''dev-controlnet-canny'' =
     Some \<lparr>alias = Some ''dev-controlnet-canny'', model_name = ''black-forest-labs/FLUX.1-dev'',
           base_model = None, controlnet_model = Some ''InstantX/FLUX.1-dev-Controlnet-Canny'',
           num_train_steps = 1000, max_sequence_length = 512,
           supports_guidance = True, requires_sigma_shift = True, priority = 5\<rparr>
 \<and> from_name ''black-forest-labs/FLUX.1-dev'' None =
     Inr \<lparr>alias = Some ''dev'', model_name = ''black-forest-labs/FLUX.1-dev'',
          base_model = None, controlnet_model = None,
          num_train_steps = 1000, max_sequence_length = 512,
          supports_guidance = True, requires_sigma_shift = True, priority = 1\<rparr>
 \<and> Some (from_name ''black-forest-labs/FLUX.1-dev'' None) \<noteq>
     map_option Inr (lookup ''dev-controlnet-canny'')"
  by (simp add: lookup_def AVAILABLE_MODELS_def from_name_def base_models_eq name_matches_def)

text \<open>
  Claim C1, amended. For every registry entry B with \<^verbatim>\<open>base_model = None\<close>, with no
  hint: \<^verbatim>\<open>from_name(B.alias)\<close> returns B itself when the alias is not \<^verbatim>\<open>f-lite\<close>;
  \<^verbatim>\<open>from_name(B.model_name)\<close> returns B itself when B has no \<^verbatim>\<open>controlnet_model\<close>;
  for an entry with a \<^verbatim>\<open>controlnet_model\<close> it returns a base without one that has the
  same \<^verbatim>\<open>model_name\<close> and a lower priority.
\<close>

theorem from_name_registry_exact:
  "\<forall>(key, B) \<in> set AVAILABLE_MODELS. base_model B = None \<longrightarrow>
      (\<forall>a. alias B = Some a \<and> a \<noteq> ''f-lite'' \<longrightarrow> from_name a None = Inr B)
    \<and> (controlnet_model B = None \<longrightarrow> from_name (model_name B) None = Inr B)
    \<and> (controlnet_model B \<noteq> None \<longrightarrow>
         (\<exists>D \<in> set base_models. from_name (model_name B) None = Inr D
            \<and> model_name D = model_name B \<and> controlnet_model D = None
            \<and> priority D < priority B))"
  by (simp add: AVAILABLE_MODELS_def from_name_def base_models_eq name_matches_def)

theorem from_name_registry_exact_witness:
  "from_name ''dev'' None =
     Inr \<lparr>alias = Some ''dev'', model_name = ''black-forest-labs/FLUX.1-dev'',
          base_model = None, controlnet_model = None,
          num_train_steps = 1000, max_sequence_length = 512,
          supports_guidance = True, requires_sigma_shift = True, priority = 1\<rparr>
 \<and> from_name ''black-forest-labs/FLUX.1-dev'' None =
     Inr \<lparr>alias = Some ''dev'', model_name = ''black-forest-labs/FLUX.1-dev'',
          base_model = None, controlnet_model = None,
          num_train_steps = 1000, max_sequence_length = 512,
          supports_guidance = True, requires_sigma_shift = True, priority = 1\<rparr>"
proof -
  let ?dev = "\<lparr>alias = Some ''dev'', model_name = ''black-forest-labs/FLUX.1-dev'',
          base_model = None, controlnet_model = None,
          num_train_steps = 1000, max_sequence_length = 512,
          supports_guidance = True, requires_sigma_shift = True, priority = 1\<rparr>"
  have mem: "(''dev'', ?dev) \<in> set AVAILABLE_MODELS"
    by (simp add: AVAILABLE_MODELS_def)
  from bspec [OF from_name_registry_exact mem] show ?thesis by simp
qed

text \<open>
  Claim C4, as stated, fails for the empty string: it is a hint that equals no base's
  alias and no base's \<^verbatim>\<open>model_name\<close>, yet it is falsy in the test
  \<^verbatim>\<open>if base_model and base_model not in allowed_names\<close>, and the call ends in the
  inference error instead.
\<close>

theorem from_name_empty_hint_counterexample:
  "find (name_matches ''custom'') base_models = None
 \<and> Some [] \<notin> set allowed_names
 \<and> from_name ''custom'' (Some []) =
     Inl (ModelConfigError ''Cannot infer base_model from custom'')"
  by (simp add: from_name_def allowed_names_def base_models_eq name_matches_def
      alias_in_name_def)

text \<open>
  Claim C4, amended. When the requested name is no exact match and a non-empty hint
  equals no base's alias and no base's \<^verbatim>\<open>model_name\<close>, \<^verbatim>\<open>from_name\<close> raises
  \<^verbatim>\<open>InvalidBaseModel\<close>; its message is the fixed text followed by the \<^verbatim>\<open>repr\<close> of
  the list of each base's alias and \<^verbatim>\<open>model_name\<close>, the bases in ascending priority
  order, and so is the same on every such call.
\<close>

theorem from_name_invalid_hint:
  assumes "\<forall>base \<in> set base_models. \<not> name_matches name base"
    and "h \<noteq> []"
    and "\<forall>base \<in> set base_models. alias base \<noteq> Some h \<and> model_name base \<noteq> h"
  shows "from_name name (Some h) =
           Inl (InvalidBaseModel (''Invalid base_model. Choose one of '' @
             repr_list (concat (map (\<lambda>base. [alias base, Some (model_name base)]) base_models))))
       \<and> sorted (map priority base_models)
       \<and> from_name name (Some h) =
           Inl (InvalidBaseModel (''Invalid base_model. Choose one of ['' @
             join_comma (map (\<lambda>s. [CHR 0x27] @ s @ [CHR 0x27])
               [''dev-fill'', ''black-forest-labs/FLUX.1-Fill-dev'',
                ''dev'', ''black-forest-labs/FLUX.1-dev'',
                ''schnell'', ''black-forest-labs/FLUX.1-schnell'',
                ''dev-redux'', ''black-forest-labs/FLUX.1-Redux-dev'',
                ''dev-depth'', ''black-forest-labs/FLUX.1-Depth-dev'',
                ''dev-controlnet-canny'', ''black-forest-labs/FLUX.1-dev'',
                ''schnell-controlnet-canny'', ''black-forest-labs/FLUX.1-schnell'',
                ''dev-controlnet-upscaler'', ''black-forest-labs/FLUX.1-dev'',
                ''f-lite'', ''cocktailpeanut/xulf-d'',
                ''xulf-s'', ''cocktailpeanut/xulf-s'',
                ''f-lite'', ''Freepik/flux.1-lite-8B'',
                ''shuttle-3'', ''shuttleai/shuttle-3-diffusion'']) @ '']''))"
proof -
  from assms(1) have none: "find (name_matches name) base_models = None"
    by (simp add: find_None_iff)
  from assms(3) have "Some h \<notin> set allowed_names"
    by (simp add: allowed_names_iff name_matches_def)
  with none assms(2) have r: "from_name name (Some h) =
      Inl (InvalidBaseModel (''Invalid base_model. Choose one of '' @ repr_list allowed_names))"
    by (simp add: from_name_invalid)
  have m: "repr_list allowed_names =
    ''['' @ join_comma (map (\<lambda>s. [CHR 0x27] @ s @ [CHR 0x27])
               [''dev-fill'', ''black-forest-labs/FLUX.1-Fill-dev'',
                ''dev'', ''black-forest-labs/FLUX.1-dev'',
                ''schnell'', ''black-forest-labs/FLUX.1-schnell'',
                ''dev-redux'', ''black-forest-labs/FLUX.1-Redux-dev'',
                ''dev-depth'', ''black-forest-labs/FLUX.1-Depth-dev'',
                ''dev-controlnet-canny'', ''black-forest-labs/FLUX.1-dev'',
                ''schnell-controlnet-canny'', ''black-forest-labs/FLUX.1-schnell'',
                ''dev-controlnet-upscaler'', ''black-forest-labs/FLUX.1-dev'',
                ''f-lite'', ''cocktailpeanut/xulf-d'',
                ''xulf-s'', ''cocktailpeanut/xulf-s'',
                ''f-lite'', ''Freepik/flux.1-lite-8B'',
                ''shuttle-3'', ''shuttleai/shuttle-3-diffusion'']) @ '']''"
    by (simp add: repr_list_def allowed_names_def base_models_eq repr_str_def repr_char_def
        Let_def)
  have 1: "from_name name (Some h) =
           Inl (InvalidBaseModel (''Invalid base_model. Choose one of '' @
             repr_list (concat (map (\<lambda>base. [alias base, Some (model_name base)]) base_models))))"
    using r by (simp add: allowed_names_def)
  have 3: "from_name name (Some h) =
           Inl (InvalidBaseModel (''Invalid base_model. Choose one of ['' @
             join_comma (map (\<lambda>s. [CHR 0x27] @ s @ [CHR 0x27])
               [''dev-fill'', ''black-forest-labs/FLUX.1-Fill-dev'',
                ''dev'', ''black-forest-labs/FLUX.1-dev'',
                ''schnell'', ''black-forest-labs/FLUX.1-schnell'',
                ''dev-redux'', ''black-forest-labs/FLUX.1-Redux-dev'',
                ''dev-depth'', ''black-forest-labs/FLUX.1-Depth-dev'',
                ''dev-controlnet-canny'', ''black-forest-labs/FLUX.1-dev'',
                ''schnell-controlnet-canny'', ''black-forest-labs/FLUX.1-schnell'',
                ''dev-controlnet-upscaler'', ''black-forest-labs/FLUX.1-dev'',
                ''f-lite'', ''cocktailpeanut/xulf-d'',
                ''xulf-s'', ''cocktailpeanut/xulf-s'',
                ''f-lite'', ''Freepik/flux.1-lite-8B'',
                ''shuttle-3'', ''shuttleai/shuttle-3-diffusion'']) @ '']''))"
    unfolding r m by simp
  from 1 sorted_base_models 3 show ?thesis by (intro conjI)
qed

theorem from_name_invalid_hint_witness:
  "from_name ''custom'' (Some ''not-a-real-model'') =
     Inl (InvalidBaseModel (''Invalid base_model. Choose one of '' @ repr_list allowed_names))"
proof -
  have 2: "''not-a-real-model'' \<noteq> []" by simp
  have 3: "\<forall>base \<in> set base_models.
      alias base \<noteq> Some ''not-a-real-model'' \<and> model_name base \<noteq> ''not-a-real-model''"
    by (simp add: base_models_eq)
  from from_name_invalid_hint [OF no_match_custom 2 3] show ?thesis
    by (simp add: allowed_names_def)
qed

text \<open>
  Claim C6 asks for aliases that differ between any two registry entries. The entries
  keyed \<^verbatim>\<open>xulf-d\<close> and \<^verbatim>\<open>f-lite\<close> are two records with the alias \<^verbatim>\<open>f-lite\<close>;
  every other entry has its key as alias.
\<close>

theorem registry_alias_duplicate:
  "map_option alias (lookup ''xulf-d'') = Some (Some ''f-lite'')
 \<and> map_option alias (lookup ''f-lite'') = Some (Some ''f-lite'')
 \<and> lookup ''xulf-d'' \<noteq> lookup ''f-lite''
 \<and> \<not> distinct (map (\<lambda>(key, model). alias model) AVAILABLE_MODELS)"
  by (simp add: lookup_def AVAILABLE_MODELS_def)

text \<open>
  Claim C9 asks that \<^verbatim>\<open>from_name(B.alias, h)\<close> return B's record for every base B and
  every hint h. For the entry keyed \<^verbatim>\<open>f-lite\<close> the call returns, whatever the hint,
  the record of the entry keyed \<^verbatim>\<open>xulf-d\<close>, which has the same alias and a lower
  priority.
\<close>

theorem from_name_f_lite_shadowed:
  "lookup ''f-lite'' =
     Some \<lparr>alias = Some ''f-lite'', model_name = ''Freepik/flux.1-lite-8B'',
           base_model = None, controlnet_model = None,
           num_train_steps = 1000, max_sequence_length = 512,
           supports_guidance = True, requires_sigma_shift = True, priority = 10\<rparr>
 \<and> from_name ''f-lite'' hint =
     Inr \<lparr>alias = Some ''f-lite'', model_name = ''cocktailpeanut/xulf-d'',
          base_model = None, controlnet_model = None,
          num_train_steps = 1000, max_sequence_length = 512,
          supports_guidance = True, requires_sigma_shift = True, priority = 8\<rparr>"
  by (simp add: lookup_def AVAILABLE_MODELS_def from_name_def base_models_eq name_matches_def)

end
